theory Spec2Isabelle
  imports Complex_Main "HOL-Library.Sublist"
begin

section \<open>Data model of the address-resolution client\<close>

text \<open>
  The development embeds the address-resolution pipeline of \<^verbatim>\<open>PortlandMapsClient\<close>:
  \<^verbatim>\<open>geocodeWithWorldGeocoder\<close>, \<^verbatim>\<open>geocodeWithArcGIS\<close> and \<^verbatim>\<open>resolveAddress\<close>.
  JavaScript numbers are read as real numbers (scores and WGS84 coordinates); the
  arithmetic of the pipeline only adds, halves, rounds and compares them. The one sum it
  forms is exact in the embedding and rounded to a double in the code; the text at
  \<open>candidatePromise\<close> says where the two agree.
\<close>

datatype source_tag = portlandmaps_api | arcgis_geocoder | internal_fallback

text \<open>
  \<^verbatim>\<open>interface PropertySuggestion { label; value; type; city?; county? }\<close>.
  The fields \<^verbatim>\<open>value\<close> and \<^verbatim>\<open>type\<close> carry a prefix, since both words are reserved.
\<close>

record PropertySuggestion =
  label :: string
  suggestion_value :: string
  suggestion_type :: string
  city :: "string option"
  county :: "string option"

record AddressCandidate =
  normalized_address :: string
  score :: real
  property_id :: "string option"
  taxlot_id :: "string option"
  x_lon :: real
  y_lat :: real
  source :: source_tag
  raw :: "PropertySuggestion option"

record ResolveAddressResult =
  candidates :: "AddressCandidate list"
  query :: string
  max_results :: int
  bbox :: "real list option"

text \<open>
  The object \<^verbatim>\<open>{ x, y, score }\<close> that both geocoding methods resolve to, and one entry
  \<^verbatim>\<open>{ location: { x, y }, score }\<close> of a geocoder's \<^verbatim>\<open>candidates\<close> array.
\<close>

record geocode_result =
  geo_x :: real
  geo_y :: real
  geo_score :: real

record geocoder_candidate =
  location_x :: real
  location_y :: real
  candidate_score :: real

section \<open>The remote services\<close>

text \<open>
  Errors are values. A \<^verbatim>\<open>fetch\<close> either rejects (network failure) or resolves with a
  response; \<^verbatim>\<open>response.json()\<close> either rejects (unreadable body) or resolves with the
  decoded object, of which the code reads the field \<^verbatim>\<open>candidates\<close> only (absent:
  \<open>None\<close>). The error thrown for a non-2xx suggestion response carries the status and the
  status text, and \<^verbatim>\<open>resolveAddress\<close> wraps whatever it catches. A decoded object has
  the shape that the client's interfaces declare for it: a list of
  \<^verbatim>\<open>PropertySuggestion\<close> from the suggestion endpoint, a list of located and scored
  candidates from a geocoder.
\<close>

datatype js_error =
    NetworkFailure string
  | UnreadableBody string
  | ApiRequestFailed nat string
  | FailedToResolveAddress js_error

record 'a api_data =
  data_candidates :: "'a list option"

record 'a response =
  ok :: bool
  status :: nat
  statusText :: string
  json :: "js_error + 'a api_data"

datatype 'a fetched = Rejected js_error | Resolved "'a response"

text \<open>
  The three endpoints the pipeline calls, each as the outcome of one GET request for
  the value of its query parameter(s): the suggestion endpoint takes \<^verbatim>\<open>query\<close> and
  \<^verbatim>\<open>count\<close>, each geocoder the single-line address. URL encoding is not modelled: a
  request is identified by the decoded parameter values.
\<close>

record services =
  suggest :: "string \<Rightarrow> int \<Rightarrow> PropertySuggestion fetched"
  arcgisGeocoder :: "string \<Rightarrow> geocoder_candidate fetched"
  arcgisWorldGeocoder :: "string \<Rightarrow> geocoder_candidate fetched"

datatype request =
    SuggestRequest string int
  | ArcgisGeocoderRequest string
  | ArcgisWorldGeocoderRequest string

text \<open>What a call does besides returning: the requests it issues and the lines it logs.\<close>

datatype event = Fetch request | ConsoleError string js_error

section \<open>The geocoding resolver\<close>

definition singleLine :: "string \<Rightarrow> string" where
  "singleLine address = address @ '', Portland, OR''"

text \<open>The body of the \<^verbatim>\<open>try\<close> block of \<^verbatim>\<open>geocodeWithWorldGeocoder\<close>; \<open>Inl\<close> is a throw.\<close>

definition geocodeWithWorldGeocoder_try ::
  "services \<Rightarrow> string \<Rightarrow> (js_error + geocode_result option) \<times> event list" where
  "geocodeWithWorldGeocoder_try svc address =
     (let issued = [Fetch (ArcgisWorldGeocoderRequest (singleLine address))] in
      case arcgisWorldGeocoder svc (singleLine address) of
        Rejected e \<Rightarrow> (Inl e, issued)
      | Resolved rsp \<Rightarrow>
          if \<not> ok rsp then (Inr None, issued)
          else (case json rsp of
                  Inl e \<Rightarrow> (Inl e, issued)
                | Inr data \<Rightarrow>
                    (case data_candidates data of
                       Some (candidate # _) \<Rightarrow>
                         (Inr (Some \<lparr>geo_x = location_x candidate,
                                     geo_y = location_y candidate,
                                     geo_score = candidate_score candidate\<rparr>), issued)
                     | _ \<Rightarrow> (Inr None, issued))))"

definition geocodeWithWorldGeocoder ::
  "services \<Rightarrow> string \<Rightarrow> geocode_result option \<times> event list" where
  "geocodeWithWorldGeocoder svc address =
     (case geocodeWithWorldGeocoder_try svc address of
        (Inr r, evs) \<Rightarrow> (r, evs)
      | (Inl e, evs) \<Rightarrow> (None, evs @ [ConsoleError ''ArcGIS World geocoder error:'' e]))"

text \<open>
  The body of the \<^verbatim>\<open>try\<close> block of \<^verbatim>\<open>geocodeWithArcGIS\<close>. The three
  \<^verbatim>\<open>return this.geocodeWithWorldGeocoder(address)\<close> are the non-2xx branch, the
  empty-result branch and (in the handler below) the \<^verbatim>\<open>catch\<close> branch.
\<close>

definition geocodeWithArcGIS_try ::
  "services \<Rightarrow> string \<Rightarrow> (js_error + geocode_result option) \<times> event list" where
  "geocodeWithArcGIS_try svc address =
     (let issued = [Fetch (ArcgisGeocoderRequest (singleLine address))] in
      case arcgisGeocoder svc (singleLine address) of
        Rejected e \<Rightarrow> (Inl e, issued)
      | Resolved rsp \<Rightarrow>
          if \<not> ok rsp then
            (case geocodeWithWorldGeocoder svc address of (r, evs) \<Rightarrow> (Inr r, issued @ evs))
          else (case json rsp of
                  Inl e \<Rightarrow> (Inl e, issued)
                | Inr data \<Rightarrow>
                    (case data_candidates data of
                       Some (candidate # _) \<Rightarrow>
                         (Inr (Some \<lparr>geo_x = location_x candidate,
                                     geo_y = location_y candidate,
                                     geo_score = candidate_score candidate\<rparr>), issued)
                     | _ \<Rightarrow>
                         (case geocodeWithWorldGeocoder svc address of
                            (r, evs) \<Rightarrow> (Inr r, issued @ evs)))))"

definition geocodeWithArcGIS ::
  "services \<Rightarrow> string \<Rightarrow> geocode_result option \<times> event list" where
  "geocodeWithArcGIS svc address =
     (case geocodeWithArcGIS_try svc address of
        (Inr r, evs) \<Rightarrow> (r, evs)
      | (Inl e, evs) \<Rightarrow>
          (case geocodeWithWorldGeocoder svc address of
             (r, evs') \<Rightarrow> (r, evs @ ConsoleError ''ArcGIS Oregon geocoder error:'' e # evs')))"

section \<open>Resolving an address\<close>

text \<open>\<^verbatim>\<open>Math.round\<close> rounds to the nearest integer, halves upwards.\<close>

definition Math_round :: "real \<Rightarrow> real" where
  "Math_round v = of_int \<lfloor>v + 1 / 2\<rfloor>"

text \<open>
  \<^verbatim>\<open>xs.slice(0, end)\<close> for an integer \<^verbatim>\<open>end\<close>: a negative \<^verbatim>\<open>end\<close> counts from the
  end of the array.
\<close>

definition slice0 :: "'a list \<Rightarrow> int \<Rightarrow> 'a list" where
  "slice0 xs end = (if end < 0 then take (nat (int (length xs) + end)) xs else take (nat end) xs)"

text \<open>
  The callback of \<^verbatim>\<open>suggestions.map(async (suggestion, index) => ...)\<close>. The locals
  \<^verbatim>\<open>x_lon\<close>, \<^verbatim>\<open>y_lat\<close>, \<^verbatim>\<open>score\<close> and \<^verbatim>\<open>source\<close> start at the fallback point, the base
  score and \<^verbatim>\<open>'internal_fallback'\<close>, and the \<^verbatim>\<open>if (geocodeResult)\<close> updates them.

  The code computes \<^verbatim>\<open>baseScore + geocodeResult.score\<close> in double precision, which
  rounds the sum to the nearest double before it is halved and passed to
  \<^verbatim>\<open>Math.round\<close>; the definition adds the two numbers exactly. The two agree wherever
  the exact sum is a double, in particular for every integer match score of magnitude at
  most \<open>2\<^sup>5\<^sup>3 - 100\<close>: the base score is an integer between 50 and 100, an integer
  of magnitude at most \<open>2\<^sup>5\<^sup>3\<close> is a double, halving a double is exact, and
  \<^verbatim>\<open>Math.round\<close> of a double is exact. For a match score that is not of this kind (one
  within an ulp below an integer, say) the score of the code can exceed the one of the
  definition by one. The value of the score is therefore stated for integer match scores
  only; tags, coordinates, order and the range of the score do not depend on the
  difference.
\<close>

definition candidatePromise ::
  "services \<Rightarrow> bool \<Rightarrow> PropertySuggestion \<Rightarrow> nat \<Rightarrow> AddressCandidate \<times> event list" where
  "candidatePromise svc includeRaw suggestion index =
     (let baseScore = max (100 - real index * 5) 50 in
      case geocodeWithArcGIS svc (label suggestion) of
        (geocodeResult, evs) \<Rightarrow>
          (let initial = \<lparr>normalized_address = label suggestion,
                          score = baseScore,
                          property_id = (if suggestion_value suggestion = [] then None
                                         else Some (suggestion_value suggestion)),
                          taxlot_id = None,
                          x_lon = - 122.6765,
                          y_lat = 45.5155,
                          source = internal_fallback,
                          raw = None\<rparr>;
               candidate =
                 (case geocodeResult of
                    Some g \<Rightarrow> initial\<lparr>x_lon := geo_x g,
                                        y_lat := geo_y g,
                                        score := Math_round ((baseScore + geo_score g) / 2),
                                        source := arcgis_geocoder\<rparr>
                  | None \<Rightarrow> initial\<lparr>source := portlandmaps_api\<rparr>)
           in (if includeRaw then candidate\<lparr>raw := Some suggestion\<rparr> else candidate, evs)))"

text \<open>
  \<^verbatim>\<open>candidatePromises\<close>: the callback applied to every suggestion with its zero-based
  index. \<^verbatim>\<open>Promise.all\<close> keeps the order of the array.
\<close>

definition candidatePromises ::
  "services \<Rightarrow> bool \<Rightarrow> PropertySuggestion list \<Rightarrow> (AddressCandidate \<times> event list) list" where
  "candidatePromises svc includeRaw suggestions =
     map (\<lambda>(index, suggestion). candidatePromise svc includeRaw suggestion index)
         (enumerate 0 suggestions)"

text \<open>The filter applied \<^verbatim>\<open>if (bbox && bbox.length === 4)\<close>.\<close>

definition bboxFilter :: "real list option \<Rightarrow> AddressCandidate list \<Rightarrow> AddressCandidate list" where
  "bboxFilter box cs =
     (case box of
        Some [minLon, minLat, maxLon, maxLat] \<Rightarrow>
          filter (\<lambda>c. x_lon c \<ge> minLon \<and> x_lon c \<le> maxLon \<and>
                      y_lat c \<ge> minLat \<and> y_lat c \<le> maxLat) cs
      | _ \<Rightarrow> cs)"

text \<open>The expression \<^verbatim>\<open>data.candidates || []\<close>.\<close>

definition orEmpty :: "'a api_data \<Rightarrow> 'a list" where
  "orEmpty data = (case data_candidates data of Some xs \<Rightarrow> xs | None \<Rightarrow> [])"

text \<open>The body of the \<^verbatim>\<open>try\<close> block of \<^verbatim>\<open>resolveAddress\<close>.\<close>

definition resolveAddress_try ::
  "services \<Rightarrow> string \<Rightarrow> int \<Rightarrow> real list option \<Rightarrow> bool \<Rightarrow>
     (js_error + ResolveAddressResult) \<times> event list" where
  "resolveAddress_try svc qry maxResults box includeRaw =
     (let issued = [Fetch (SuggestRequest qry maxResults)] in
      case suggest svc qry maxResults of
        Rejected e \<Rightarrow> (Inl e, issued)
      | Resolved rsp \<Rightarrow>
          if \<not> ok rsp then (Inl (ApiRequestFailed (status rsp) (statusText rsp)), issued)
          else (case json rsp of
                  Inl e \<Rightarrow> (Inl e, issued)
                | Inr data \<Rightarrow>
                    (let suggestions = orEmpty data;
                         settled = candidatePromises svc includeRaw suggestions;
                         filtered = bboxFilter box (map fst settled);
                         limited = slice0 filtered maxResults
                     in (Inr \<lparr>candidates = limited, query = qry,
                              max_results = maxResults, bbox = box\<rparr>,
                         issued @ concat (map snd settled)))))"

text \<open>
  The events of the concurrent enrichments are listed suggestion by suggestion; the
  order in which the runtime interleaves them is not part of the model, and no
  theorem below depends on it.
\<close>

definition resolveAddress ::
  "services \<Rightarrow> string \<Rightarrow> int \<Rightarrow> real list option \<Rightarrow> bool \<Rightarrow>
     (js_error + ResolveAddressResult) \<times> event list" where
  "resolveAddress svc qry maxResults box includeRaw =
     (case resolveAddress_try svc qry maxResults box includeRaw of
        (Inr r, evs) \<Rightarrow> (Inr r, evs)
      | (Inl e, evs) \<Rightarrow> (Inl (FailedToResolveAddress e), evs))"

section \<open>Vocabulary of the specification\<close>

text \<open>
  A geocoder tier \<^emph>\<open>fails\<close> for a request when the call is rejected, answers with a
  non-2xx status, has an unreadable body, or lists no candidate. Otherwise it
  \<^emph>\<open>matches\<close>, and its match is the first candidate of the list.
\<close>

definition tier_fails :: "geocoder_candidate fetched \<Rightarrow> bool" where
  "tier_fails r =
     (case r of
        Rejected e \<Rightarrow> True
      | Resolved rsp \<Rightarrow>
          \<not> ok rsp \<or>
          (case json rsp of
             Inl e \<Rightarrow> True
           | Inr data \<Rightarrow> data_candidates data = None \<or> data_candidates data = Some []))"

definition tier_match :: "geocoder_candidate fetched \<Rightarrow> geocoder_candidate option" where
  "tier_match r =
     (case r of
        Rejected e \<Rightarrow> None
      | Resolved rsp \<Rightarrow>
          if ok rsp then
            (case json rsp of
               Inl e \<Rightarrow> None
             | Inr data \<Rightarrow> (case data_candidates data of Some (c # cs) \<Rightarrow> Some c | _ \<Rightarrow> None))
          else None)"

definition located :: "geocoder_candidate \<Rightarrow> geocode_result" where
  "located c = \<lparr>geo_x = location_x c, geo_y = location_y c, geo_score = candidate_score c\<rparr>"

text \<open>
  The suggestion lookup fails when its call is rejected, answers with a non-2xx status,
  or has an unreadable body.
\<close>

definition suggestion_lookup_fails :: "PropertySuggestion fetched \<Rightarrow> bool" where
  "suggestion_lookup_fails r =
     (case r of Rejected e \<Rightarrow> True | Resolved rsp \<Rightarrow> \<not> ok rsp \<or> isl (json rsp))"

text \<open>
  One geocoding resolution issues exactly one request to the Oregon geocoder, so these
  requests count the resolutions in a list of events.
\<close>

fun isResolution :: "event \<Rightarrow> bool" where
  "isResolution (Fetch (ArcgisGeocoderRequest a)) = True"
| "isResolution _ = False"

fun isWorldRequest :: "event \<Rightarrow> bool" where
  "isWorldRequest (Fetch (ArcgisWorldGeocoderRequest a)) = True"
| "isWorldRequest _ = False"

fun isSuggestRequest :: "event \<Rightarrow> bool" where
  "isSuggestRequest (Fetch (SuggestRequest q n)) = True"
| "isSuggestRequest _ = False"

text \<open>The test of the bounding-box filter, for the four components of a box.\<close>

definition inside :: "real \<Rightarrow> real \<Rightarrow> real \<Rightarrow> real \<Rightarrow> AddressCandidate \<Rightarrow> bool" where
  "inside minLon minLat maxLon maxLat c \<longleftrightarrow>
     minLon \<le> x_lon c \<and> x_lon c \<le> maxLon \<and> minLat \<le> y_lat c \<and> y_lat c \<le> maxLat"

section \<open>Example services\<close>

definition okResponse :: "'a list \<Rightarrow> 'a response" where
  "okResponse xs =
     \<lparr>ok = True, status = 200, statusText = ''OK'', json = Inr \<lparr>data_candidates = Some xs\<rparr>\<rparr>"

definition unavailable :: "'a response" where
  "unavailable =
     \<lparr>ok = False, status = 503, statusText = ''Service Unavailable'',
      json = Inl (UnreadableBody ''Unexpected token'')\<rparr>"

definition mainSW :: PropertySuggestion where
  "mainSW = \<lparr>label = ''1234 SW MAIN ST'', suggestion_value = ''R246278'',
             suggestion_type = ''address'', city = Some ''PORTLAND'', county = None\<rparr>"

definition mainSE :: PropertySuggestion where
  "mainSE = \<lparr>label = ''1234 SE MAIN ST'', suggestion_value = [],
             suggestion_type = ''address'', city = Some ''PORTLAND'', county = None\<rparr>"

text \<open>Two suggestions whatever the count asked for; both geocoders out of service.\<close>

definition geocodersDown :: services where
  "geocodersDown =
     \<lparr>suggest = (\<lambda>q n. Resolved (okResponse [mainSW, mainSE])),
      arcgisGeocoder = (\<lambda>a. Resolved unavailable),
      arcgisWorldGeocoder = (\<lambda>a. Rejected (NetworkFailure ''fetch failed''))\<rparr>"

text \<open>
  The Oregon geocoder knows the first address only (west of the river); the World
  geocoder places every address east of it.
\<close>

definition tiered :: services where
  "tiered =
     \<lparr>suggest = (\<lambda>q n. Resolved (okResponse [mainSW, mainSE])),
      arcgisGeocoder = (\<lambda>a.
        if a = ''1234 SW MAIN ST, Portland, OR''
        then Resolved (okResponse [\<lparr>location_x = - 122.69, location_y = 45.51,
                                     candidate_score = 97\<rparr>])
        else Resolved (okResponse [])),
      arcgisWorldGeocoder = (\<lambda>a.
        Resolved (okResponse [\<lparr>location_x = - 122.65, location_y = 45.52,
                                candidate_score = 80\<rparr>]))\<rparr>"

definition suggestDown :: services where
  "suggestDown =
     \<lparr>suggest = (\<lambda>q n. Resolved unavailable),
      arcgisGeocoder = (\<lambda>a. Resolved unavailable),
      arcgisWorldGeocoder = (\<lambda>a. Resolved unavailable)\<rparr>"

definition eastside :: "real list" where
  "eastside = [- 122.66, 45, - 122, 46]"

section \<open>Properties of the geocoding resolver\<close>

lemma tier_fails_iff: "tier_fails r \<longleftrightarrow> tier_match r = None"
  by (auto simp: tier_fails_def tier_match_def
      split: fetched.splits sum.splits option.splits list.splits)

lemma world_result:
  "fst (geocodeWithWorldGeocoder svc a) =
     map_option located (tier_match (arcgisWorldGeocoder svc (singleLine a)))"
  by (auto simp: geocodeWithWorldGeocoder_def geocodeWithWorldGeocoder_try_def tier_match_def
        located_def Let_def
      split: fetched.splits sum.splits option.splits list.splits)

lemma arcgis_result:
  "fst (geocodeWithArcGIS svc a) =
     (case tier_match (arcgisGeocoder svc (singleLine a)) of
        Some c \<Rightarrow> Some (located c)
      | None \<Rightarrow> fst (geocodeWithWorldGeocoder svc a))"
  by (auto simp: geocodeWithArcGIS_def geocodeWithArcGIS_try_def tier_match_def located_def
        Let_def
      split: fetched.splits sum.splits option.splits list.splits prod.splits)

lemma world_events:
  "filter isResolution (snd (geocodeWithWorldGeocoder svc a)) = [] \<and>
   filter isWorldRequest (snd (geocodeWithWorldGeocoder svc a)) =
     [Fetch (ArcgisWorldGeocoderRequest (singleLine a))]"
  by (auto simp: geocodeWithWorldGeocoder_def geocodeWithWorldGeocoder_try_def Let_def
      split: fetched.splits sum.splits option.splits list.splits)

lemma arcgis_events_hit:
  "tier_match (arcgisGeocoder svc (singleLine a)) = Some c \<Longrightarrow>
   snd (geocodeWithArcGIS svc a) = [Fetch (ArcgisGeocoderRequest (singleLine a))]"
  by (auto simp: geocodeWithArcGIS_def geocodeWithArcGIS_try_def tier_match_def Let_def
      split: fetched.splits sum.splits option.splits list.splits prod.splits if_splits)

lemma arcgis_events_miss:
  "tier_match (arcgisGeocoder svc (singleLine a)) = None \<Longrightarrow>
   filter isWorldRequest (snd (geocodeWithArcGIS svc a)) =
     [Fetch (ArcgisWorldGeocoderRequest (singleLine a))]"
  using world_events [of svc a]
  by (auto simp: geocodeWithArcGIS_def geocodeWithArcGIS_try_def tier_match_def Let_def
      split: fetched.splits sum.splits option.splits list.splits prod.splits if_splits)

lemma arcgis_resolutions:
  "filter isResolution (snd (geocodeWithArcGIS svc a)) =
     [Fetch (ArcgisGeocoderRequest (singleLine a))]"
  using world_events [of svc a]
  by (auto simp: geocodeWithArcGIS_def geocodeWithArcGIS_try_def Let_def
      split: fetched.splits sum.splits option.splits list.splits prod.splits if_splits)

section \<open>Properties of the enrichment and of the pipeline\<close>

lemma candidatePromise_fields:
  "normalized_address (fst (candidatePromise svc includeRaw s i)) = label s"
  "source (fst (candidatePromise svc includeRaw s i)) =
     (case fst (geocodeWithArcGIS svc (label s)) of
        Some g \<Rightarrow> arcgis_geocoder | None \<Rightarrow> portlandmaps_api)"
  "x_lon (fst (candidatePromise svc includeRaw s i)) =
     (case fst (geocodeWithArcGIS svc (label s)) of Some g \<Rightarrow> geo_x g | None \<Rightarrow> - 122.6765)"
  "y_lat (fst (candidatePromise svc includeRaw s i)) =
     (case fst (geocodeWithArcGIS svc (label s)) of Some g \<Rightarrow> geo_y g | None \<Rightarrow> 45.5155)"
  "score (fst (candidatePromise svc includeRaw s i)) =
     (case fst (geocodeWithArcGIS svc (label s)) of
        Some g \<Rightarrow> Math_round ((max (100 - real i * 5) 50 + geo_score g) / 2)
      | None \<Rightarrow> max (100 - real i * 5) 50)"
  "snd (candidatePromise svc includeRaw s i) = snd (geocodeWithArcGIS svc (label s))"
  by (auto simp: candidatePromise_def Let_def split: prod.splits option.splits)

lemma length_candidatePromises:
  "length (candidatePromises svc includeRaw sugs) = length sugs"
  by (simp add: candidatePromises_def)

lemma nth_candidatePromises:
  "i < length sugs \<Longrightarrow>
   candidatePromises svc includeRaw sugs ! i = candidatePromise svc includeRaw (sugs ! i) i"
  by (simp add: candidatePromises_def nth_enumerate_eq)

lemma in_candidatePromises:
  "p \<in> set (candidatePromises svc includeRaw sugs) \<Longrightarrow>
   \<exists>i < length sugs. p = candidatePromise svc includeRaw (sugs ! i) i"
  by (metis in_set_conv_nth length_candidatePromises nth_candidatePromises)

lemma subseq_slice0: "subseq (slice0 xs e) xs"
  by (simp add: slice0_def prefix_imp_subseq take_is_prefix)

lemma set_slice0: "set (slice0 xs e) \<subseteq> set xs"
  by (auto simp: slice0_def dest: in_set_takeD)

lemma subseq_bboxFilter: "subseq (bboxFilter box cs) cs"
  by (auto simp: bboxFilter_def split: option.splits list.splits)

lemma set_bboxFilter: "set (bboxFilter box cs) \<subseteq> set cs"
  by (auto simp: bboxFilter_def split: option.splits list.splits)

lemma resolveAddress_Inr:
  "fst (resolveAddress svc qry m box includeRaw) = Inr res \<Longrightarrow>
   \<exists>(rsp :: PropertySuggestion response) d.
     suggest svc qry m = Resolved rsp \<and> ok rsp \<and> json rsp = Inr d \<and>
     res = \<lparr>candidates =
              slice0 (bboxFilter box (map fst (candidatePromises svc includeRaw (orEmpty d)))) m,
            query = qry, max_results = m, bbox = box\<rparr>"
  by (auto simp: resolveAddress_def resolveAddress_try_def Let_def
      split: fetched.splits sum.splits if_splits prod.splits)

lemma resolveAddress_ok:
  "suggest svc qry m = Resolved rsp \<Longrightarrow> ok rsp \<Longrightarrow> json rsp = Inr d \<Longrightarrow>
   resolveAddress svc qry m box includeRaw =
     (Inr \<lparr>candidates =
             slice0 (bboxFilter box (map fst (candidatePromises svc includeRaw (orEmpty d)))) m,
           query = qry, max_results = m, bbox = box\<rparr>,
      Fetch (SuggestRequest qry m) #
        concat (map snd (candidatePromises svc includeRaw (orEmpty d))))"
  by (auto simp: resolveAddress_def resolveAddress_try_def Let_def
      split: fetched.splits sum.splits if_splits prod.splits)

lemma returned_candidate:
  assumes "fst (resolveAddress svc qry m box includeRaw) = Inr res" "c \<in> set (candidates res)"
  shows "\<exists>s i. c = fst (candidatePromise svc includeRaw s i)"
proof -
  from assms(1) obtain d where
    res: "candidates res =
            slice0 (bboxFilter box (map fst (candidatePromises svc includeRaw (orEmpty d)))) m"
    by (auto dest!: resolveAddress_Inr)
  with assms(2) have "c \<in> set (map fst (candidatePromises svc includeRaw (orEmpty d)))"
    using set_slice0 set_bboxFilter by fastforce
  then obtain p where "p \<in> set (candidatePromises svc includeRaw (orEmpty d))" "c = fst p"
    by auto
  then show ?thesis
    using in_candidatePromises by blast
qed

section \<open>The example services, evaluated\<close>

lemmas example_defs =
  tiered_def geocodersDown_def suggestDown_def okResponse_def unavailable_def mainSW_def
  mainSE_def eastside_def

lemmas model_defs =
  resolveAddress_def resolveAddress_try_def candidatePromises_def candidatePromise_def
  geocodeWithArcGIS_def geocodeWithArcGIS_try_def geocodeWithWorldGeocoder_def
  geocodeWithWorldGeocoder_try_def singleLine_def orEmpty_def bboxFilter_def slice0_def
  Math_round_def

lemma tiered_geocode_SW:
  "geocodeWithArcGIS tiered ''1234 SW MAIN ST'' =
     (Some \<lparr>geo_x = - 122.69, geo_y = 45.51, geo_score = 97\<rparr>,
      [Fetch (ArcgisGeocoderRequest ''1234 SW MAIN ST, Portland, OR'')])"
  by (simp add: example_defs model_defs)

lemma tiered_geocode_SE:
  "geocodeWithArcGIS tiered ''1234 SE MAIN ST'' =
     (Some \<lparr>geo_x = - 122.65, geo_y = 45.52, geo_score = 80\<rparr>,
      [Fetch (ArcgisGeocoderRequest ''1234 SE MAIN ST, Portland, OR''),
       Fetch (ArcgisWorldGeocoderRequest ''1234 SE MAIN ST, Portland, OR'')])"
  by (simp add: example_defs model_defs)

lemma tiered_resolve_eastside:
  "resolveAddress tiered ''1234 main'' 1 (Some eastside) False =
     (Inr \<lparr>candidates =
             [\<lparr>normalized_address = ''1234 SE MAIN ST'', score = 88, property_id = None,
               taxlot_id = None, x_lon = - 122.65, y_lat = 45.52, source = arcgis_geocoder,
               raw = None\<rparr>],
           query = ''1234 main'', max_results = 1, bbox = Some eastside\<rparr>,
      [Fetch (SuggestRequest ''1234 main'' 1),
       Fetch (ArcgisGeocoderRequest ''1234 SW MAIN ST, Portland, OR''),
       Fetch (ArcgisGeocoderRequest ''1234 SE MAIN ST, Portland, OR''),
       Fetch (ArcgisWorldGeocoderRequest ''1234 SE MAIN ST, Portland, OR'')])"
  by (simp add: example_defs model_defs)

lemma down_resolve:
  "resolveAddress geocodersDown ''1234 main'' 1 None False =
     (Inr \<lparr>candidates =
             [\<lparr>normalized_address = ''1234 SW MAIN ST'', score = 100,
               property_id = Some ''R246278'', taxlot_id = None, x_lon = - 122.6765,
               y_lat = 45.5155, source = portlandmaps_api, raw = None\<rparr>],
           query = ''1234 main'', max_results = 1, bbox = None\<rparr>,
      [Fetch (SuggestRequest ''1234 main'' 1),
       Fetch (ArcgisGeocoderRequest ''1234 SW MAIN ST, Portland, OR''),
       Fetch (ArcgisWorldGeocoderRequest ''1234 SW MAIN ST, Portland, OR''),
       ConsoleError ''ArcGIS World geocoder error:'' (NetworkFailure ''fetch failed''),
       Fetch (ArcgisGeocoderRequest ''1234 SE MAIN ST, Portland, OR''),
       Fetch (ArcgisWorldGeocoderRequest ''1234 SE MAIN ST, Portland, OR''),
       ConsoleError ''ArcGIS World geocoder error:'' (NetworkFailure ''fetch failed'')])"
  by (simp add: example_defs model_defs)

lemma suggestDown_resolve:
  "resolveAddress suggestDown ''1234 main'' 10 None False =
     (Inl (FailedToResolveAddress (ApiRequestFailed 503 ''Service Unavailable'')),
      [Fetch (SuggestRequest ''1234 main'' 10)])"
  by (simp add: example_defs model_defs)

section \<open>The claims\<close>

text \<open>
  Claim C5 (tier-1 short-circuit). Whenever the Oregon geocoder answers the request for
  an address with a 2xx status and a non-empty candidate list, \<^verbatim>\<open>geocodeWithArcGIS\<close>
  resolves to the location and score of the first candidate of that list, and the only
  request it issues is the one to the Oregon geocoder: the World geocoder is not called.
\<close>

theorem C5_tier1_short_circuit:
  assumes "arcgisGeocoder svc (singleLine address) = Resolved rsp"
    and "ok rsp"
    and "json rsp = Inr data"
    and "data_candidates data = Some (c # cs)"
  shows "geocodeWithArcGIS svc address =
           (Some \<lparr>geo_x = location_x c, geo_y = location_y c, geo_score = candidate_score c\<rparr>,
            [Fetch (ArcgisGeocoderRequest (singleLine address))]) \<and>
         filter isWorldRequest (snd (geocodeWithArcGIS svc address)) = []"
  using assms by (simp add: geocodeWithArcGIS_def geocodeWithArcGIS_try_def)

theorem C5_tier1_short_circuit_witness:
  "arcgisGeocoder tiered (singleLine ''1234 SW MAIN ST'') =
     Resolved (okResponse [\<lparr>location_x = - 122.69, location_y = 45.51, candidate_score = 97\<rparr>]) \<and>
   geocodeWithArcGIS tiered ''1234 SW MAIN ST'' =
     (Some \<lparr>geo_x = - 122.69, geo_y = 45.51, geo_score = 97\<rparr>,
      [Fetch (ArcgisGeocoderRequest ''1234 SW MAIN ST, Portland, OR'')]) \<and>
   filter isWorldRequest (snd (geocodeWithArcGIS tiered ''1234 SW MAIN ST'')) = []"
proof -
  let ?c = "\<lparr>location_x = - 122.69, location_y = 45.51, candidate_score = 97\<rparr>"
  have h1: "arcgisGeocoder tiered (singleLine ''1234 SW MAIN ST'') = Resolved (okResponse [?c])"
    by (simp add: tiered_def singleLine_def)
  have h2: "ok (okResponse [?c])"
    by (simp add: okResponse_def)
  have h3: "json (okResponse [?c]) = Inr \<lparr>data_candidates = Some [?c]\<rparr>"
    by (simp add: okResponse_def)
  have h4: "data_candidates \<lparr>data_candidates = Some [?c]\<rparr> = Some (?c # [])"
    by simp
  from C5_tier1_short_circuit [OF h1 h2 h3 h4] h1 show ?thesis
    by (simp add: singleLine_def)
qed

text \<open>
  Claim C9 (the tag \<^verbatim>\<open>'internal_fallback'\<close> is unreachable). Every candidate that
  \<^verbatim>\<open>resolveAddress\<close> returns carries \<^verbatim>\<open>'arcgis_geocoder'\<close>, and then the geocoding of its
  address matched, or \<^verbatim>\<open>'portlandmaps_api'\<close>, and then the geocoding found nothing; the
  initial \<^verbatim>\<open>'internal_fallback'\<close> never reaches the result.
\<close>

theorem C9_internal_fallback_unreachable:
  assumes "fst (resolveAddress svc qry m box includeRaw) = Inr res"
    and "c \<in> set (candidates res)"
  shows "source c \<noteq> internal_fallback \<and>
         (source c = arcgis_geocoder \<and>
            fst (geocodeWithArcGIS svc (normalized_address c)) \<noteq> None \<or>
          source c = portlandmaps_api \<and>
            fst (geocodeWithArcGIS svc (normalized_address c)) = None)"
proof -
  from returned_candidate [OF assms] obtain s i
    where c: "c = fst (candidatePromise svc includeRaw s i)" by blast
  show ?thesis
    unfolding c candidatePromise_fields by (simp split: option.splits)
qed

theorem C9_internal_fallback_unreachable_witness:
  "fst (resolveAddress geocodersDown ''1234 main'' 1 None False) =
     Inr \<lparr>candidates =
            [\<lparr>normalized_address = ''1234 SW MAIN ST'', score = 100,
              property_id = Some ''R246278'', taxlot_id = None, x_lon = - 122.6765,
              y_lat = 45.5155, source = portlandmaps_api, raw = None\<rparr>],
          query = ''1234 main'', max_results = 1, bbox = None\<rparr> \<and>
   fst (geocodeWithArcGIS geocodersDown ''1234 SW MAIN ST'') = None"
proof -
  let ?c = "\<lparr>normalized_address = ''1234 SW MAIN ST'', score = 100,
              property_id = Some ''R246278'', taxlot_id = None, x_lon = - 122.6765,
              y_lat = 45.5155, source = portlandmaps_api, raw = None\<rparr>"
  let ?res = "\<lparr>candidates = [?c], query = ''1234 main'', max_results = 1, bbox = None\<rparr>"
  have h1: "fst (resolveAddress geocodersDown ''1234 main'' 1 None False) = Inr ?res"
    by (simp add: down_resolve)
  have h2: "?c \<in> set (candidates ?res)"
    by simp
  from C9_internal_fallback_unreachable [OF h1 h2] h1 show ?thesis
    by simp
qed

lemma tier_outcome_sources:
  "fst (geocodeWithArcGIS svc a) = None \<longleftrightarrow>
     tier_fails (arcgisGeocoder svc (singleLine a)) \<and> tier_fails (arcgisWorldGeocoder svc (singleLine a))"
  by (simp add: arcgis_result world_result tier_fails_iff split: option.splits)

text \<open>
  Claim C1 (provenance of the coordinates), as the code has it. For every candidate that
  \<^verbatim>\<open>resolveAddress\<close> returns, the source is \<^verbatim>\<open>'arcgis_geocoder'\<close> exactly when one of
  the two geocoder tiers returned at least one candidate for the candidate's address, and
  it is \<^verbatim>\<open>'portlandmaps_api'\<close> exactly when both tiers failed, erred or returned nothing.
  The tag of the second case is not \<^verbatim>\<open>'internal_fallback'\<close>: the example below has both
  tiers out of service and a returned candidate tagged \<^verbatim>\<open>'portlandmaps_api'\<close>.
\<close>

theorem C1_source_provenance:
  assumes "fst (resolveAddress svc qry m box includeRaw) = Inr res"
    and "c \<in> set (candidates res)"
  shows "(source c = arcgis_geocoder \<longleftrightarrow>
            \<not> tier_fails (arcgisGeocoder svc (singleLine (normalized_address c))) \<or>
            \<not> tier_fails (arcgisWorldGeocoder svc (singleLine (normalized_address c)))) \<and>
         (source c = portlandmaps_api \<longleftrightarrow>
            tier_fails (arcgisGeocoder svc (singleLine (normalized_address c))) \<and>
            tier_fails (arcgisWorldGeocoder svc (singleLine (normalized_address c))))"
proof -
  from returned_candidate [OF assms] obtain s i
    where c: "c = fst (candidatePromise svc includeRaw s i)" by blast
  have "normalized_address c = label s"
    by (simp add: c candidatePromise_fields)
  moreover have "source c = (if fst (geocodeWithArcGIS svc (label s)) = None
                             then portlandmaps_api else arcgis_geocoder)"
    by (simp add: c candidatePromise_fields split: option.splits)
  ultimately show ?thesis
    using tier_outcome_sources [of svc "label s"] by auto
qed

theorem C1_source_provenance_witness:
  "fst (resolveAddress tiered ''1234 main'' 1 (Some eastside) False) =
     Inr \<lparr>candidates =
            [\<lparr>normalized_address = ''1234 SE MAIN ST'', score = 88, property_id = None,
              taxlot_id = None, x_lon = - 122.65, y_lat = 45.52, source = arcgis_geocoder,
              raw = None\<rparr>],
          query = ''1234 main'', max_results = 1, bbox = Some eastside\<rparr> \<and>
   tier_fails (arcgisGeocoder tiered (singleLine ''1234 SE MAIN ST'')) \<and>
   \<not> tier_fails (arcgisWorldGeocoder tiered (singleLine ''1234 SE MAIN ST''))"
proof -
  let ?c = "\<lparr>normalized_address = ''1234 SE MAIN ST'', score = 88, property_id = None,
              taxlot_id = None, x_lon = - 122.65, y_lat = 45.52, source = arcgis_geocoder,
              raw = None\<rparr>"
  let ?res = "\<lparr>candidates = [?c], query = ''1234 main'', max_results = 1,
               bbox = Some eastside\<rparr>"
  have h1: "fst (resolveAddress tiered ''1234 main'' 1 (Some eastside) False) = Inr ?res"
    by (simp add: tiered_resolve_eastside)
  have h2: "?c \<in> set (candidates ?res)"
    by simp
  have h3: "tier_fails (arcgisGeocoder tiered (singleLine ''1234 SE MAIN ST''))"
    by (simp add: tier_fails_def example_defs singleLine_def)
  from C1_source_provenance [OF h1 h2] h1 h3 show ?thesis
    by simp
qed

text \<open>
  With both geocoders out of service the returned candidate is tagged
  \<^verbatim>\<open>'portlandmaps_api'\<close>, so the fallback tag \<^verbatim>\<open>'internal_fallback'\<close> does not mark the
  failure of both tiers.
\<close>

theorem C1_fallback_tag_counterexample:
  "fst (resolveAddress geocodersDown ''1234 main'' 1 None False) =
     Inr \<lparr>candidates =
            [\<lparr>normalized_address = ''1234 SW MAIN ST'', score = 100,
              property_id = Some ''R246278'', taxlot_id = None, x_lon = - 122.6765,
              y_lat = 45.5155, source = portlandmaps_api, raw = None\<rparr>],
          query = ''1234 main'', max_results = 1, bbox = None\<rparr> \<and>
   tier_fails (arcgisGeocoder geocodersDown (singleLine ''1234 SW MAIN ST'')) \<and>
   tier_fails (arcgisWorldGeocoder geocodersDown (singleLine ''1234 SW MAIN ST'')) \<and>
   portlandmaps_api \<noteq> internal_fallback"
proof -
  have "tier_fails (arcgisGeocoder geocodersDown (singleLine ''1234 SW MAIN ST''))"
    and "tier_fails (arcgisWorldGeocoder geocodersDown (singleLine ''1234 SW MAIN ST''))"
    by (simp_all add: tier_fails_def geocodersDown_def unavailable_def)
  then show ?thesis
    by (simp add: down_resolve)
qed

lemma baseScore_range:
  "50 \<le> max (100 - real i * 5) 50 \<and> max (100 - real i * 5) 50 \<le> 100 \<and>
   max (100 - real i * 5) 50 \<in> \<int>"
  by (simp add: max_def)

lemma Math_round_range:
  "0 \<le> v \<Longrightarrow> v \<le> 100 \<Longrightarrow> Math_round v \<in> \<int> \<and> 0 \<le> Math_round v \<and> Math_round v \<le> 100"
  unfolding Math_round_def by (simp add: le_floor_iff floor_le_iff)



text \<open>
  Claim C3 (error propagation). \<^verbatim>\<open>resolveAddress\<close> fails exactly when the suggestion
  lookup fails (rejected call, non-2xx status or unreadable body). Whatever the two
  geocoders do has no influence on that: replacing them by any others leaves a success a
  success and a failure a failure.
\<close>

theorem C3_error_propagation:
  "isl (fst (resolveAddress svc qry m box includeRaw)) = suggestion_lookup_fails (suggest svc qry m) \<and>
   isl (fst (resolveAddress (svc\<lparr>arcgisGeocoder := oregon, arcgisWorldGeocoder := world\<rparr>)
              qry m box includeRaw)) =
     isl (fst (resolveAddress svc qry m box includeRaw))"
  by (simp add: resolveAddress_def resolveAddress_try_def suggestion_lookup_fails_def Let_def
      split: fetched.splits sum.splits prod.splits)

theorem C3_error_propagation_witness:
  "suggestion_lookup_fails (suggest suggestDown ''1234 main'' 10) \<and>
   isl (fst (resolveAddress suggestDown ''1234 main'' 10 None False)) \<and>
   \<not> suggestion_lookup_fails (suggest geocodersDown ''1234 main'' 1) \<and>
   \<not> isl (fst (resolveAddress geocodersDown ''1234 main'' 1 None False))"
  using C3_error_propagation [of suggestDown "''1234 main''" 10 None False]
    C3_error_propagation [of geocodersDown "''1234 main''" 1 None False]
  by (simp add: suggestion_lookup_fails_def suggestDown_def geocodersDown_def unavailable_def
      okResponse_def)

text \<open>
  Claim C4 (range of the score). For every candidate that \<^verbatim>\<open>resolveAddress\<close> returns,
  if the match score that the geocoding resolver supplies for the candidate's address
  lies in \<open>[0, 100]\<close>, then the candidate's score is an integer between 0 and 100.
\<close>

theorem C4_score_range:
  assumes "fst (resolveAddress svc qry m box includeRaw) = Inr res"
    and "c \<in> set (candidates res)"
    and "\<And>g. fst (geocodeWithArcGIS svc (normalized_address c)) = Some g \<Longrightarrow>
              0 \<le> geo_score g \<and> geo_score g \<le> 100"
  shows "score c \<in> \<int> \<and> 0 \<le> score c \<and> score c \<le> 100"
proof -
  from returned_candidate [OF assms(1,2)] obtain s i
    where c: "c = fst (candidatePromise svc includeRaw s i)" by blast
  have a: "normalized_address c = label s"
    by (simp add: c candidatePromise_fields)
  note b = baseScore_range [of i]
  show ?thesis
  proof (cases "fst (geocodeWithArcGIS svc (label s))")
    case None
    then have "score c = max (100 - real i * 5) 50"
      by (simp add: c candidatePromise_fields)
    with b show ?thesis by simp
  next
    case (Some g)
    with assms(3) a have g: "0 \<le> geo_score g" "geo_score g \<le> 100"
      by simp_all
    from Some have "score c = Math_round ((max (100 - real i * 5) 50 + geo_score g) / 2)"
      by (simp add: c candidatePromise_fields)
    moreover have "0 \<le> (max (100 - real i * 5) 50 + geo_score g) / 2"
      and "(max (100 - real i * 5) 50 + geo_score g) / 2 \<le> 100"
      using b g by simp_all
    ultimately show ?thesis
      using Math_round_range by simp
  qed
qed

theorem C4_score_range_witness:
  "fst (resolveAddress tiered ''1234 main'' 1 (Some eastside) False) =
     Inr \<lparr>candidates =
            [\<lparr>normalized_address = ''1234 SE MAIN ST'', score = 88, property_id = None,
              taxlot_id = None, x_lon = - 122.65, y_lat = 45.52, source = arcgis_geocoder,
              raw = None\<rparr>],
          query = ''1234 main'', max_results = 1, bbox = Some eastside\<rparr> \<and>
   fst (geocodeWithArcGIS tiered ''1234 SE MAIN ST'') =
     Some \<lparr>geo_x = - 122.65, geo_y = 45.52, geo_score = 80\<rparr> \<and>
   (88::real) \<in> \<int> \<and> (0::real) \<le> 88 \<and> (88::real) \<le> 100"
proof -
  let ?c = "\<lparr>normalized_address = ''1234 SE MAIN ST'', score = 88, property_id = None,
              taxlot_id = None, x_lon = - 122.65, y_lat = 45.52, source = arcgis_geocoder,
              raw = None\<rparr>"
  let ?res = "\<lparr>candidates = [?c], query = ''1234 main'', max_results = 1,
               bbox = Some eastside\<rparr>"
  have h1: "fst (resolveAddress tiered ''1234 main'' 1 (Some eastside) False) = Inr ?res"
    by (simp add: tiered_resolve_eastside)
  have h2: "?c \<in> set (candidates ?res)"
    by simp
  have h3: "0 \<le> geo_score g \<and> geo_score g \<le> 100"
    if "fst (geocodeWithArcGIS tiered (normalized_address ?c)) = Some g" for g
    using that by (auto simp: tiered_geocode_SE)
  from C4_score_range [OF h1 h2 h3] h1 show ?thesis
    by (simp add: tiered_geocode_SE)
qed

text \<open>
  Claim C6 (tier-2 fallback). Whenever the Oregon geocoder fails for the label of a
  suggestion (rejected call, non-2xx status, unreadable body) or lists no candidate, the
  World geocoder is called, once, with the same single-line address. If the World
  geocoder matches, the resolver returns its first candidate, and the address candidate
  built from the suggestion is tagged \<^verbatim>\<open>'arcgis_geocoder'\<close> and carries that location;
  if the World geocoder fails or lists nothing too, the resolver returns no match.
\<close>

theorem C6_tier2_fallback:
  assumes "tier_fails (arcgisGeocoder svc (singleLine (label s)))"
  shows "filter isWorldRequest (snd (geocodeWithArcGIS svc (label s))) =
           [Fetch (ArcgisWorldGeocoderRequest (singleLine (label s)))] \<and>
         (\<forall>w. tier_match (arcgisWorldGeocoder svc (singleLine (label s))) = Some w \<longrightarrow>
            fst (geocodeWithArcGIS svc (label s)) = Some (located w) \<and>
            source (fst (candidatePromise svc includeRaw s i)) = arcgis_geocoder \<and>
            x_lon (fst (candidatePromise svc includeRaw s i)) = location_x w \<and>
            y_lat (fst (candidatePromise svc includeRaw s i)) = location_y w) \<and>
         (tier_fails (arcgisWorldGeocoder svc (singleLine (label s))) \<longrightarrow>
            fst (geocodeWithArcGIS svc (label s)) = None)"
proof -
  from assms have miss: "tier_match (arcgisGeocoder svc (singleLine (label s))) = None"
    by (simp add: tier_fails_iff)
  have r: "fst (geocodeWithArcGIS svc (label s)) =
             map_option located (tier_match (arcgisWorldGeocoder svc (singleLine (label s))))"
    by (simp add: arcgis_result miss world_result)
  show ?thesis
    by (simp add: arcgis_events_miss [OF miss] r candidatePromise_fields tier_fails_iff
        located_def)
qed

theorem C6_tier2_fallback_witness:
  "tier_fails (arcgisGeocoder tiered (singleLine (label mainSE))) \<and>
   tier_match (arcgisWorldGeocoder tiered (singleLine (label mainSE))) =
     Some \<lparr>location_x = - 122.65, location_y = 45.52, candidate_score = 80\<rparr> \<and>
   filter isWorldRequest (snd (geocodeWithArcGIS tiered (label mainSE))) =
     [Fetch (ArcgisWorldGeocoderRequest ''1234 SE MAIN ST, Portland, OR'')] \<and>
   source (fst (candidatePromise tiered False mainSE 1)) = arcgis_geocoder \<and>
   x_lon (fst (candidatePromise tiered False mainSE 1)) = - 122.65 \<and>
   y_lat (fst (candidatePromise tiered False mainSE 1)) = 45.52 \<and>
   tier_fails (arcgisGeocoder geocodersDown (singleLine (label mainSW))) \<and>
   tier_fails (arcgisWorldGeocoder geocodersDown (singleLine (label mainSW))) \<and>
   fst (geocodeWithArcGIS geocodersDown (label mainSW)) = None"
proof -
  have h1: "tier_fails (arcgisGeocoder tiered (singleLine (label mainSE)))"
    by (simp add: tier_fails_def example_defs singleLine_def)
  have h2: "tier_match (arcgisWorldGeocoder tiered (singleLine (label mainSE))) =
              Some \<lparr>location_x = - 122.65, location_y = 45.52, candidate_score = 80\<rparr>"
    by (simp add: tier_match_def example_defs)
  have h3: "tier_fails (arcgisGeocoder geocodersDown (singleLine (label mainSW)))"
    by (simp add: tier_fails_def example_defs)
  have h4: "tier_fails (arcgisWorldGeocoder geocodersDown (singleLine (label mainSW)))"
    by (simp add: tier_fails_def example_defs)
  from C6_tier2_fallback [OF h1, of False 1] C6_tier2_fallback [OF h3, of False 0] h1 h2 h3 h4
  show ?thesis
    by (simp add: singleLine_def mainSE_def)
qed

lemma bboxFilter_four:
  "bboxFilter (Some [minLon, minLat, maxLon, maxLat]) cs =
     filter (inside minLon minLat maxLon maxLat) cs"
proof -
  have "(\<lambda>c. x_lon c \<ge> minLon \<and> x_lon c \<le> maxLon \<and> y_lat c \<ge> minLat \<and> y_lat c \<le> maxLat) =
        inside minLon minLat maxLon maxLat"
    by (auto simp: inside_def fun_eq_iff)
  then show ?thesis
    by (simp add: bboxFilter_def)
qed

lemma bboxFilter_other:
  "(case box of Some b \<Rightarrow> length b \<noteq> 4 | None \<Rightarrow> True) \<Longrightarrow> bboxFilter box cs = cs"
  by (auto simp: bboxFilter_def split: option.splits list.splits)

lemma slice0_nonneg: "0 \<le> e \<Longrightarrow> slice0 xs e = take (nat e) xs"
  by (simp add: slice0_def)

lemma bboxFilter_append:
  "bboxFilter box (xs @ ys) = bboxFilter box xs @ bboxFilter box ys"
  by (auto simp: bboxFilter_def split: option.splits list.splits)

lemma enriched_labels:
  "map normalized_address (map fst (candidatePromises svc includeRaw sugs)) = map label sugs"
  by (rule nth_equalityI)
     (simp_all add: length_candidatePromises nth_candidatePromises candidatePromise_fields)

lemma count_resolutions:
  "length (filter isResolution (concat (map snd (candidatePromises svc includeRaw sugs)))) =
     length sugs"
proof -
  have "length (filter isResolution (concat (map snd ps))) = length ps"
    if "\<forall>p \<in> set ps. length (filter isResolution (snd p)) = 1"
    for ps :: "(AddressCandidate \<times> event list) list"
    using that by (induction ps) simp_all
  moreover have "\<forall>p \<in> set (candidatePromises svc includeRaw sugs).
                   length (filter isResolution (snd p)) = 1"
    by (auto dest!: in_candidatePromises simp: candidatePromise_fields arcgis_resolutions)
  ultimately show ?thesis
    by (simp add: length_candidatePromises)
qed

text \<open>
  Claim C7 (bounding-box filter). For a non-negative \<^verbatim>\<open>max_results\<close> (the tool schema
  admits 1 to 25) and a successful suggestion lookup: with a box of four components
  \<open>[minLon, minLat, maxLon, maxLat]\<close> the result holds the first \<^verbatim>\<open>max_results\<close> of the
  enriched candidates that lie inside the box, in their order, so every returned
  candidate lies inside the box, truncation comes after filtering, and the number of
  returned candidates is the minimum of \<^verbatim>\<open>max_results\<close> and the number of candidates
  inside the box. Without a box, or with one that has not exactly four components, no
  candidate is filtered out.
\<close>

theorem C7_bbox_filter_contract:
  assumes "suggest svc qry m = Resolved rsp"
    and "ok rsp"
    and "json rsp = Inr d"
    and "0 \<le> m"
  shows "fst (resolveAddress svc qry m (Some [minLon, minLat, maxLon, maxLat]) includeRaw) =
           Inr \<lparr>candidates =
                  take (nat m) (filter (inside minLon minLat maxLon maxLat)
                    (map fst (candidatePromises svc includeRaw (orEmpty d)))),
                query = qry, max_results = m,
                bbox = Some [minLon, minLat, maxLon, maxLat]\<rparr> \<and>
         (\<forall>c \<in> set (take (nat m) (filter (inside minLon minLat maxLon maxLat)
                    (map fst (candidatePromises svc includeRaw (orEmpty d))))).
            minLon \<le> x_lon c \<and> x_lon c \<le> maxLon \<and> minLat \<le> y_lat c \<and> y_lat c \<le> maxLat) \<and>
         length (take (nat m) (filter (inside minLon minLat maxLon maxLat)
                    (map fst (candidatePromises svc includeRaw (orEmpty d))))) =
           min (nat m) (length (filter (inside minLon minLat maxLon maxLat)
                    (map fst (candidatePromises svc includeRaw (orEmpty d))))) \<and>
         ((case box of Some b \<Rightarrow> length b \<noteq> 4 | None \<Rightarrow> True) \<longrightarrow>
            fst (resolveAddress svc qry m box includeRaw) =
              Inr \<lparr>candidates = take (nat m) (map fst (candidatePromises svc includeRaw (orEmpty d))),
                   query = qry, max_results = m, bbox = box\<rparr>)"
proof -
  have in_box: "minLon \<le> x_lon c \<and> x_lon c \<le> maxLon \<and> minLat \<le> y_lat c \<and> y_lat c \<le> maxLat"
    if "c \<in> set (take (nat m) (filter (inside minLon minLat maxLon maxLat) cs))" for c cs
    using in_set_takeD [OF that] by (simp add: inside_def)
  show ?thesis
    using assms in_box
    by (auto simp: resolveAddress_ok [OF assms(1-3)] bboxFilter_four bboxFilter_other
        slice0_nonneg)
qed

lemma tiered_suggest:
  "suggest tiered qry m = Resolved (okResponse [mainSW, mainSE])"
  "ok (okResponse xs)"
  "json (okResponse xs) = Inr \<lparr>data_candidates = Some xs\<rparr>"
  "orEmpty \<lparr>data_candidates = Some xs\<rparr> = xs"
  by (simp_all add: tiered_def okResponse_def orEmpty_def)

theorem C7_bbox_filter_contract_witness:
  "suggest tiered ''1234 main'' 1 = Resolved (okResponse [mainSW, mainSE]) \<and>
   ok (okResponse [mainSW, mainSE]) \<and>
   json (okResponse [mainSW, mainSE]) = Inr \<lparr>data_candidates = Some [mainSW, mainSE]\<rparr> \<and>
   (0::int) \<le> 1 \<and>
   take (nat 1) (filter (inside (- 122.66) 45 (- 122) 46)
     (map fst (candidatePromises tiered False [mainSW, mainSE]))) =
     [\<lparr>normalized_address = ''1234 SE MAIN ST'', score = 88, property_id = None,
       taxlot_id = None, x_lon = - 122.65, y_lat = 45.52, source = arcgis_geocoder,
       raw = None\<rparr>]"
proof -
  have h4: "(0::int) \<le> 1"
    by simp
  from C7_bbox_filter_contract [OF tiered_suggest(1-3) h4,
      of "''1234 main''" "- 122.66" 45 "- 122" 46 False None]
    tiered_resolve_eastside
  show ?thesis
    by (simp add: tiered_suggest eastside_def)
qed

text \<open>
  Claim C8 (order preservation), as the code has it. The returned candidates are a
  subsequence of the enriched suggestions, and their addresses a subsequence of the
  suggestions' labels. With \<^verbatim>\<open>max_results = 1\<close> and at least one candidate passing the
  bounding-box filter, the single returned candidate is the first one that passes the
  filter; it is the one of the first raw suggestion whenever that one passes the filter
  (always, when no filter applies). The example below has a box that removes the first
  suggestion, and the second one is returned.
\<close>

theorem C8_order_preservation:
  assumes "suggest svc qry m = Resolved rsp"
    and "ok rsp"
    and "json rsp = Inr d"
    and "fst (resolveAddress svc qry m box includeRaw) = Inr res"
  shows "subseq (candidates res) (map fst (candidatePromises svc includeRaw (orEmpty d))) \<and>
         subseq (map normalized_address (candidates res)) (map label (orEmpty d)) \<and>
         (m = 1 \<and> bboxFilter box (map fst (candidatePromises svc includeRaw (orEmpty d))) \<noteq> [] \<longrightarrow>
            candidates res =
              [hd (bboxFilter box (map fst (candidatePromises svc includeRaw (orEmpty d))))]) \<and>
         (m = 1 \<and> orEmpty d \<noteq> [] \<and>
          bboxFilter box [fst (candidatePromise svc includeRaw (hd (orEmpty d)) 0)] \<noteq> [] \<longrightarrow>
            candidates res = [fst (candidatePromise svc includeRaw (hd (orEmpty d)) 0)] \<and>
            normalized_address (hd (candidates res)) = label (hd (orEmpty d)))"
proof -
  let ?enriched = "map fst (candidatePromises svc includeRaw (orEmpty d))"
  have res: "candidates res = slice0 (bboxFilter box ?enriched) m"
    using assms(4) by (auto simp: resolveAddress_ok [OF assms(1-3)])
  have sub: "subseq (candidates res) ?enriched"
    unfolding res using subseq_slice0 subseq_bboxFilter subseq_order.trans by blast
  from subseq_map [OF sub, of normalized_address]
  have labels: "subseq (map normalized_address (candidates res)) (map label (orEmpty d))"
    by (simp only: enriched_labels)
  have one: "candidates res = [hd (bboxFilter box ?enriched)]"
    if "m = 1" "bboxFilter box ?enriched \<noteq> []"
    using that by (cases "bboxFilter box ?enriched") (simp_all add: res slice0_def)
  have first: "candidates res = [fst (candidatePromise svc includeRaw (hd (orEmpty d)) 0)]"
    if m: "m = 1" and ne: "orEmpty d \<noteq> []"
      and keep: "bboxFilter box [fst (candidatePromise svc includeRaw (hd (orEmpty d)) 0)] \<noteq> []"
  proof -
    let ?c = "fst (candidatePromise svc includeRaw (hd (orEmpty d)) 0)"
    from ne obtain s ss where sugs: "orEmpty d = s # ss"
      by (cases "orEmpty d") auto
    have "?enriched = [?c] @ map fst (map (\<lambda>(index, suggestion).
            candidatePromise svc includeRaw suggestion index) (enumerate (Suc 0) ss))"
      by (simp add: candidatePromises_def sugs)
    then obtain rest where "?enriched = [?c] @ rest"
      by blast
    then have split: "bboxFilter box ?enriched = bboxFilter box [?c] @ bboxFilter box rest"
      by (simp only: bboxFilter_append)
    from subseq_bboxFilter [of box "[?c]"] keep have "bboxFilter box [?c] = [?c]"
      by (cases "bboxFilter box [?c]") (auto simp: subseq_Cons2_iff split: if_splits)
    with split show ?thesis
      by (simp add: res m slice0_def)
  qed
  from sub labels one first show ?thesis
    by (auto simp: candidatePromise_fields)
qed

theorem C8_order_preservation_witness:
  "suggest tiered ''1234 main'' 1 = Resolved (okResponse [mainSW, mainSE]) \<and>
   ok (okResponse [mainSW, mainSE]) \<and>
   json (okResponse [mainSW, mainSE]) = Inr \<lparr>data_candidates = Some [mainSW, mainSE]\<rparr> \<and>
   fst (resolveAddress tiered ''1234 main'' 1 (Some eastside) False) =
     Inr \<lparr>candidates =
            [\<lparr>normalized_address = ''1234 SE MAIN ST'', score = 88, property_id = None,
              taxlot_id = None, x_lon = - 122.65, y_lat = 45.52, source = arcgis_geocoder,
              raw = None\<rparr>],
          query = ''1234 main'', max_results = 1, bbox = Some eastside\<rparr> \<and>
   bboxFilter (Some eastside) (map fst (candidatePromises tiered False [mainSW, mainSE])) =
     [\<lparr>normalized_address = ''1234 SE MAIN ST'', score = 88, property_id = None,
       taxlot_id = None, x_lon = - 122.65, y_lat = 45.52, source = arcgis_geocoder,
       raw = None\<rparr>] \<and>
   subseq [''1234 SE MAIN ST''] (map label [mainSW, mainSE])"
proof -
  let ?c = "\<lparr>normalized_address = ''1234 SE MAIN ST'', score = 88, property_id = None,
              taxlot_id = None, x_lon = - 122.65, y_lat = 45.52, source = arcgis_geocoder,
              raw = None\<rparr>"
  have h4: "fst (resolveAddress tiered ''1234 main'' 1 (Some eastside) False) =
     Inr \<lparr>candidates = [?c], query = ''1234 main'', max_results = 1, bbox = Some eastside\<rparr>"
    by (simp add: tiered_resolve_eastside)
  have kept: "bboxFilter (Some eastside) (map fst (candidatePromises tiered False [mainSW, mainSE])) =
     [?c]"
    by (simp add: example_defs model_defs)
  from C8_order_preservation [OF tiered_suggest(1-3) h4] h4 kept show ?thesis
    by (simp only: tiered_suggest ResolveAddressResult.simps list.map AddressCandidate.simps
        simp_thms)
qed

text \<open>
  With \<^verbatim>\<open>max_results = 1\<close> and a box that excludes the location of the first suggestion,
  the single returned candidate is the one of the second suggestion.
\<close>

theorem C8_first_suggestion_counterexample:
  "suggest tiered ''1234 main'' 1 = Resolved (okResponse [mainSW, mainSE]) \<and>
   label mainSW = ''1234 SW MAIN ST'' \<and>
   fst (resolveAddress tiered ''1234 main'' 1 (Some eastside) False) =
     Inr \<lparr>candidates =
            [\<lparr>normalized_address = ''1234 SE MAIN ST'', score = 88, property_id = None,
              taxlot_id = None, x_lon = - 122.65, y_lat = 45.52, source = arcgis_geocoder,
              raw = None\<rparr>],
          query = ''1234 main'', max_results = 1, bbox = Some eastside\<rparr> \<and>
   ''1234 SE MAIN ST'' \<noteq> label mainSW"
  by (simp add: tiered_resolve_eastside tiered_suggest mainSW_def)

lemma world_no_suggest:
  "filter isSuggestRequest (snd (geocodeWithWorldGeocoder svc a)) = []"
  by (auto simp: geocodeWithWorldGeocoder_def geocodeWithWorldGeocoder_try_def Let_def
      split: fetched.splits sum.splits option.splits list.splits)

lemma arcgis_no_suggest:
  "filter isSuggestRequest (snd (geocodeWithArcGIS svc a)) = []"
  using world_no_suggest [of svc a]
  by (auto simp: geocodeWithArcGIS_def geocodeWithArcGIS_try_def Let_def
      split: fetched.splits sum.splits option.splits list.splits prod.splits if_splits)

lemma enrichment_no_suggest:
  "filter isSuggestRequest (concat (map snd (candidatePromises svc includeRaw sugs))) = []"
proof -
  have "filter isSuggestRequest (concat (map snd ps)) = []"
    if "\<forall>p \<in> set ps. filter isSuggestRequest (snd p) = []"
    for ps :: "(AddressCandidate \<times> event list) list"
    using that by (induction ps) simp_all
  moreover have "\<forall>p \<in> set (candidatePromises svc includeRaw sugs).
                   filter isSuggestRequest (snd p) = []"
    by (auto dest!: in_candidatePromises simp: candidatePromise_fields arcgis_no_suggest)
  ultimately show ?thesis
    by simp
qed

text \<open>
  Claim C10 (the lookup limit), as the code has it. A successful \<^verbatim>\<open>resolveAddress\<close>
  issues one suggestion lookup, with \<^verbatim>\<open>count = max_results\<close>. Every suggestion that the
  service returns is enriched and launches exactly one geocoding resolution, so at most
  \<^verbatim>\<open>max_results\<close> resolutions are launched when the service returns at most
  \<^verbatim>\<open>max_results\<close> suggestions. The returned candidates are drawn from the suggestions of
  that one lookup only, and filtering and truncation can only shrink their number. The
  example below has a service that returns two suggestions for \<^verbatim>\<open>count = 1\<close>: both are
  geocoded, and the second one is returned once the box has removed the first.
\<close>

theorem C10_lookup_limit:
  assumes "suggest svc qry m = Resolved rsp"
    and "ok rsp"
    and "json rsp = Inr d"
    and "resolveAddress svc qry m box includeRaw = (Inr res, evs)"
  shows "filter isSuggestRequest evs = [Fetch (SuggestRequest qry m)] \<and>
         length (filter isResolution evs) = length (orEmpty d) \<and>
         (int (length (orEmpty d)) \<le> m \<longrightarrow> int (length (filter isResolution evs)) \<le> m) \<and>
         set (candidates res) \<subseteq> set (map fst (candidatePromises svc includeRaw (orEmpty d))) \<and>
         length (candidates res) \<le>
           length (bboxFilter box (map fst (candidatePromises svc includeRaw (orEmpty d)))) \<and>
         length (bboxFilter box (map fst (candidatePromises svc includeRaw (orEmpty d)))) \<le>
           length (orEmpty d)"
proof -
  let ?enriched = "map fst (candidatePromises svc includeRaw (orEmpty d))"
  from assms(4) resolveAddress_ok [OF assms(1-3), of box includeRaw]
  have pair: "(Inr res :: js_error + ResolveAddressResult, evs) =
      (Inr \<lparr>candidates = slice0 (bboxFilter box ?enriched) m,
             query = qry, max_results = m, bbox = box\<rparr>,
       Fetch (SuggestRequest qry m) #
         concat (map snd (candidatePromises svc includeRaw (orEmpty d))))"
    by (rule trans [OF sym])
  then have "res = \<lparr>candidates = slice0 (bboxFilter box ?enriched) m,
                    query = qry, max_results = m, bbox = box\<rparr>"
    by (simp only: prod.inject sum.inject)
  then have res: "candidates res = slice0 (bboxFilter box ?enriched) m"
    by simp
  from pair have evs: "evs = Fetch (SuggestRequest qry m) #
                concat (map snd (candidatePromises svc includeRaw (orEmpty d)))"
    by (simp only: prod.inject)
  have a: "filter isSuggestRequest evs = [Fetch (SuggestRequest qry m)]"
    by (simp add: evs enrichment_no_suggest)
  have b: "length (filter isResolution evs) = length (orEmpty d)"
    by (simp add: evs count_resolutions)
  have c: "set (candidates res) \<subseteq> set ?enriched"
    unfolding res by (rule subset_trans [OF set_slice0 set_bboxFilter])
  have d: "length (candidates res) \<le> length (bboxFilter box ?enriched)"
    unfolding res by (rule list_emb_length [OF subseq_slice0])
  have "length (bboxFilter box ?enriched) \<le> length ?enriched"
    by (rule list_emb_length [OF subseq_bboxFilter])
  then have e: "length (bboxFilter box ?enriched) \<le> length (orEmpty d)"
    by (simp add: length_candidatePromises)
  from a b c d e show ?thesis
    by simp
qed

theorem C10_lookup_limit_witness:
  "suggest tiered ''1234 main'' 2 = Resolved (okResponse [mainSW, mainSE]) \<and>
   ok (okResponse [mainSW, mainSE]) \<and>
   json (okResponse [mainSW, mainSE]) = Inr \<lparr>data_candidates = Some [mainSW, mainSE]\<rparr> \<and>
   resolveAddress tiered ''1234 main'' 2 (Some eastside) False =
     (Inr \<lparr>candidates =
             [\<lparr>normalized_address = ''1234 SE MAIN ST'', score = 88, property_id = None,
               taxlot_id = None, x_lon = - 122.65, y_lat = 45.52, source = arcgis_geocoder,
               raw = None\<rparr>],
           query = ''1234 main'', max_results = 2, bbox = Some eastside\<rparr>,
      [Fetch (SuggestRequest ''1234 main'' 2),
       Fetch (ArcgisGeocoderRequest ''1234 SW MAIN ST, Portland, OR''),
       Fetch (ArcgisGeocoderRequest ''1234 SE MAIN ST, Portland, OR''),
       Fetch (ArcgisWorldGeocoderRequest ''1234 SE MAIN ST, Portland, OR'')]) \<and>
   int (length [mainSW, mainSE]) \<le> 2 \<and>
   int (length (filter isResolution
     [Fetch (SuggestRequest ''1234 main'' 2),
      Fetch (ArcgisGeocoderRequest ''1234 SW MAIN ST, Portland, OR''),
      Fetch (ArcgisGeocoderRequest ''1234 SE MAIN ST, Portland, OR''),
      Fetch (ArcgisWorldGeocoderRequest ''1234 SE MAIN ST, Portland, OR'')])) \<le> 2"
proof -
  have h4: "resolveAddress tiered ''1234 main'' 2 (Some eastside) False =
     (Inr \<lparr>candidates =
             [\<lparr>normalized_address = ''1234 SE MAIN ST'', score = 88, property_id = None,
               taxlot_id = None, x_lon = - 122.65, y_lat = 45.52, source = arcgis_geocoder,
               raw = None\<rparr>],
           query = ''1234 main'', max_results = 2, bbox = Some eastside\<rparr>,
      [Fetch (SuggestRequest ''1234 main'' 2),
       Fetch (ArcgisGeocoderRequest ''1234 SW MAIN ST, Portland, OR''),
       Fetch (ArcgisGeocoderRequest ''1234 SE MAIN ST, Portland, OR''),
       Fetch (ArcgisWorldGeocoderRequest ''1234 SE MAIN ST, Portland, OR'')])"
    by (simp add: example_defs model_defs)
  from C10_lookup_limit [OF tiered_suggest(1-3) h4] h4 show ?thesis
    by (simp add: tiered_suggest)
qed

text \<open>
  A service that returns two suggestions for \<^verbatim>\<open>count = 1\<close>: two resolutions are launched,
  and the one returned candidate is the second suggestion.
\<close>

theorem C10_limit_counterexample:
  "resolveAddress tiered ''1234 main'' 1 (Some eastside) False =
     (Inr \<lparr>candidates =
             [\<lparr>normalized_address = ''1234 SE MAIN ST'', score = 88, property_id = None,
               taxlot_id = None, x_lon = - 122.65, y_lat = 45.52, source = arcgis_geocoder,
               raw = None\<rparr>],
           query = ''1234 main'', max_results = 1, bbox = Some eastside\<rparr>,
      [Fetch (SuggestRequest ''1234 main'' 1),
       Fetch (ArcgisGeocoderRequest ''1234 SW MAIN ST, Portland, OR''),
       Fetch (ArcgisGeocoderRequest ''1234 SE MAIN ST, Portland, OR''),
       Fetch (ArcgisWorldGeocoderRequest ''1234 SE MAIN ST, Portland, OR'')]) \<and>
   length (filter isResolution (snd (resolveAddress tiered ''1234 main'' 1 (Some eastside) False))) = 2 \<and>
   \<not> (2::int) \<le> 1 \<and>
   ''1234 SE MAIN ST'' = label (orEmpty \<lparr>data_candidates = Some [mainSW, mainSE]\<rparr> ! 1)"
  by (simp add: tiered_resolve_eastside orEmpty_def mainSE_def)

end
